theory Spec2Isabelle
  imports Complex_Main "HOL-Library.AList" "HOL-Library.Multiset" "HOL-Library.Product_Lexorder"
begin

section \<open>Data model\<close>

text \<open>
  Documents of the store, as the mongoose schemas declare them. An ObjectId is a
  natural number, a Date is its millisecond timestamp, \<open>null\<close> is \<open>None\<close>.
  The express-validator chain in front of every handler (\<open>isMongoId\<close>, \<open>trim\<close>) is
  reflected in the types: an id in a path is a well-formed ObjectId, a text argument is
  the sanitised value.
\<close>

type_synonym oid = nat
type_synonym date = int

text \<open>
  An id in a request body stays a string: 24 hexadecimal digits in either case, as
  \<open>isMongoId\<close> admits. Mongoose casts it to the ObjectId it spells (\<open>cast_id\<close>);
  \<open>ObjectId.toString()\<close> spells an id in lower case, so the string equals the
  \<open>toString()\<close> of the id it casts to exactly when it is written in lower case.
\<close>

record id_string =
  cast_id :: oid
  lower_case :: bool

datatype status = Pending | Accepted | Rejected | Completed | Cancelled

record feedback =
  fromUserRating :: "int option"
  fromUserComment :: "string option"
  toUserRating :: "int option"
  toUserComment :: "string option"

record SwapRequest =
  sid :: oid
  fromUserId :: oid
  toUserId :: oid
  skillOffered :: string
  skillWanted :: string
  message :: string
  status :: status
  completedAt :: "date option"
  feedback :: feedback
  createdAt :: date
  updatedAt :: date

text \<open>
  The User schema file is not part of the sources; the fields are the ones the route
  handlers read and write (\<open>_id\<close>, \<open>isBanned\<close>, \<open>isAdmin\<close>, \<open>isPublic\<close>, the two skill
  arrays, \<open>rating\<close>, \<open>reviewCount\<close>) and the frontend's \<open>User\<close> interface lists.
  The rating is a JavaScript number: a double, kept as the rational it denotes.
\<close>

record User =
  uid :: oid
  email :: string
  name :: string
  skillsOffered :: "string list"
  skillsWanted :: "string list"
  isPublic :: bool
  isAdmin :: bool
  isBanned :: bool
  rating :: rat
  reviewCount :: nat

datatype ntype = swap_request | swap_accepted | swap_rejected | swap_completed
  | admin_message | feedback_received

datatype related_model = RelSwapRequest | RelUser | RelAdminMessage

record Notification =
  userId :: oid
  ntype :: ntype
  title :: string
  message_n :: string
  isRead :: bool
  relatedId :: "oid option"
  relatedModel :: "related_model option"
  metadata_fromUserId :: "oid option"
  createdAt_n :: date

record db =
  swapRequests :: "SwapRequest list"
  users :: "User list"
  notifications :: "Notification list"

text \<open>
  The responses a handler can send besides success. \<open>http_status\<close> is the status code
  of the response; the comment gives its message.
\<close>

datatype error =
    ValidationError        \<comment> \<open>400 Validation error\<close>
  | SwapNotFound           \<comment> \<open>404 Swap request not found\<close>
  | UserNotFound           \<comment> \<open>404 User not found\<close>
  | OnlyRecipient          \<comment> \<open>403 Only the recipient can accept/reject swap requests\<close>
  | OnlySender             \<comment> \<open>403 Only the sender can cancel swap requests\<close>
  | NotInvolved            \<comment> \<open>403 Not authorized to complete this swap / to provide feedback\<close>
  | ProfilePrivate         \<comment> \<open>403 Profile is private\<close>
  | NotPending             \<comment> \<open>400 Can only accept/reject/cancel pending swap requests\<close>
  | NotAccepted            \<comment> \<open>400 Can only complete accepted swap requests\<close>
  | NotCompleted           \<comment> \<open>400 Can only provide feedback for completed swaps\<close>
  | SelfSwap               \<comment> \<open>400 Cannot create swap request with yourself\<close>
  | PendingExists          \<comment> \<open>400 A pending swap request already exists between these users\<close>
  | AlreadyProvided        \<comment> \<open>400 You have already provided feedback for this swap\<close>
  | AlreadyBanned          \<comment> \<open>400 User is already banned\<close>
  | CannotBanAdmin         \<comment> \<open>400 Cannot ban admin users\<close>
  | ServerError            \<comment> \<open>500 Server error (the catch block)\<close>




section \<open>SwapRequest model (models/SwapRequest.js)\<close>

definition findById :: "oid \<Rightarrow> db \<Rightarrow> SwapRequest option" where
  "findById i d = find (\<lambda>s. sid s = i) (swapRequests d)"

text \<open>\<open>save\<close> writes the document back under its id; \<open>timestamps: true\<close> stamps \<open>updatedAt\<close>.\<close>

definition save :: "date \<Rightarrow> SwapRequest \<Rightarrow> db \<Rightarrow> db" where
  "save now s d =
     d\<lparr>swapRequests := map (\<lambda>x. if sid x = sid s then s\<lparr>updatedAt := now\<rparr> else x) (swapRequests d)\<rparr>"

text \<open>
  The user documents, and \<open>populate\<close>: it replaces a participant id of a swap request by
  the user document with that id, or by \<open>null\<close> when there is none.
\<close>

definition findUserById :: "oid \<Rightarrow> db \<Rightarrow> User option" where
  "findUserById i d = find (\<lambda>u. uid u = i) (users d)"

definition saveUser :: "User \<Rightarrow> db \<Rightarrow> db" where
  "saveUser u d = d\<lparr>users := map (\<lambda>x. if uid x = uid u then u else x) (users d)\<rparr>"

definition populate :: "oid \<Rightarrow> db \<Rightarrow> User option" where
  "populate u d = findUserById u d"

definition accept :: "SwapRequest \<Rightarrow> SwapRequest" where
  "accept s = s\<lparr>status := Accepted\<rparr>"

definition reject :: "SwapRequest \<Rightarrow> SwapRequest" where
  "reject s = s\<lparr>status := Rejected\<rparr>"

definition complete :: "date \<Rightarrow> SwapRequest \<Rightarrow> SwapRequest" where
  "complete now s = s\<lparr>status := Completed, completedAt := Some now\<rparr>"

definition cancel :: "SwapRequest \<Rightarrow> SwapRequest" where
  "cancel s = s\<lparr>status := Cancelled\<rparr>"

section \<open>Notification model\<close>

definition createNotification ::
  "oid \<Rightarrow> ntype \<Rightarrow> string \<Rightarrow> string \<Rightarrow> oid \<Rightarrow> related_model \<Rightarrow> oid option \<Rightarrow> date \<Rightarrow> db \<Rightarrow> db" where
  "createNotification u t ti m r rm fu now d =
     d\<lparr>notifications := notifications d @
        [\<lparr>userId = u, ntype = t, title = ti, message_n = m, isRead = False,
          relatedId = Some r, relatedModel = Some rm, metadata_fromUserId = fu,
          createdAt_n = now\<rparr>]\<rparr>"

definition createSwapRequestNotification :: "oid \<Rightarrow> oid \<Rightarrow> oid \<Rightarrow> date \<Rightarrow> db \<Rightarrow> db" where
  "createSwapRequestNotification toU fromU swapRequestId =
     createNotification toU swap_request ''New Swap Request''
       ''You have received a new skill swap request'' swapRequestId RelSwapRequest (Some fromU)"

definition createSwapAcceptedNotification :: "oid \<Rightarrow> oid \<Rightarrow> date \<Rightarrow> db \<Rightarrow> db" where
  "createSwapAcceptedNotification u swapRequestId =
     createNotification u swap_accepted ''Swap Request Accepted''
       ''Your swap request has been accepted'' swapRequestId RelSwapRequest None"

definition createSwapRejectedNotification :: "oid \<Rightarrow> oid \<Rightarrow> date \<Rightarrow> db \<Rightarrow> db" where
  "createSwapRejectedNotification u swapRequestId =
     createNotification u swap_rejected ''Swap Request Rejected''
       ''Your swap request has been rejected'' swapRequestId RelSwapRequest None"

definition createSwapCompletedNotification :: "oid \<Rightarrow> oid \<Rightarrow> date \<Rightarrow> db \<Rightarrow> db" where
  "createSwapCompletedNotification u swapRequestId =
     createNotification u swap_completed ''Swap Completed''
       ''Your skill swap has been completed'' swapRequestId RelSwapRequest None"

definition createFeedbackReceivedNotification :: "oid \<Rightarrow> oid \<Rightarrow> date \<Rightarrow> db \<Rightarrow> db" where
  "createFeedbackReceivedNotification u swapRequestId =
     createNotification u feedback_received ''Feedback Received''
       ''You have received feedback for a completed swap'' swapRequestId RelSwapRequest None"

section \<open>Swap lifecycle handlers (routes/swaps)\<close>

text \<open>
  Each handler takes the authenticated caller (\<open>req.user._id\<close>), the path id, the clock
  and the store, and returns the response together with the store as the handler leaves
  it. The socket.io push that follows a successful write does not touch the store.

  After the save, accept, reject and complete populate both participants and then read
  \<open>swapRequest.fromUserId._id\<close> (complete also \<open>swapRequest.toUserId._id\<close>) for the
  notification. When that participant has no user document the populated field is
  \<open>null\<close>, the read throws, and the catch block answers 500 with the new status already
  saved. Cancel and create read no populated field.
\<close>

definition accept_handler :: "oid \<Rightarrow> oid \<Rightarrow> date \<Rightarrow> db \<Rightarrow> (error + SwapRequest) \<times> db" where
  "accept_handler user i now d =
     (case findById i d of
        None \<Rightarrow> (Inl SwapNotFound, d)
      | Some swapRequest \<Rightarrow>
          if toUserId swapRequest \<noteq> user then (Inl OnlyRecipient, d)
          else if status swapRequest \<noteq> Pending then (Inl NotPending, d)
          else
            let s = accept swapRequest;
                d1 = save now s d
            in case populate (fromUserId s) d1 of
                 None \<Rightarrow> (Inl ServerError, d1)
               | Some fromUser \<Rightarrow>
                   (Inr (s\<lparr>updatedAt := now\<rparr>),
                    createSwapAcceptedNotification (uid fromUser) (sid s) now d1))"

definition reject_handler :: "oid \<Rightarrow> oid \<Rightarrow> date \<Rightarrow> db \<Rightarrow> (error + SwapRequest) \<times> db" where
  "reject_handler user i now d =
     (case findById i d of
        None \<Rightarrow> (Inl SwapNotFound, d)
      | Some swapRequest \<Rightarrow>
          if toUserId swapRequest \<noteq> user then (Inl OnlyRecipient, d)
          else if status swapRequest \<noteq> Pending then (Inl NotPending, d)
          else
            let s = reject swapRequest;
                d1 = save now s d
            in case populate (fromUserId s) d1 of
                 None \<Rightarrow> (Inl ServerError, d1)
               | Some fromUser \<Rightarrow>
                   (Inr (s\<lparr>updatedAt := now\<rparr>),
                    createSwapRejectedNotification (uid fromUser) (sid s) now d1))"

definition complete_handler :: "oid \<Rightarrow> oid \<Rightarrow> date \<Rightarrow> db \<Rightarrow> (error + SwapRequest) \<times> db" where
  "complete_handler user i now d =
     (case findById i d of
        None \<Rightarrow> (Inl SwapNotFound, d)
      | Some swapRequest \<Rightarrow>
          if fromUserId swapRequest \<noteq> user \<and> toUserId swapRequest \<noteq> user
            then (Inl NotInvolved, d)
          else if status swapRequest \<noteq> Accepted then (Inl NotAccepted, d)
          else
            let s = complete now swapRequest;
                d1 = save now s d;
                toUser = populate (toUserId s) d1
            in case populate (fromUserId s) d1 of
                 None \<Rightarrow> (Inl ServerError, d1)
               | Some fromUser \<Rightarrow>
                   let d2 = createSwapCompletedNotification (uid fromUser) (sid s) now d1
                   in case toUser of
                        None \<Rightarrow> (Inl ServerError, d2)
                      | Some toUser \<Rightarrow>
                          (Inr (s\<lparr>updatedAt := now\<rparr>),
                           createSwapCompletedNotification (uid toUser) (sid s) now d2))"

definition cancel_handler :: "oid \<Rightarrow> oid \<Rightarrow> date \<Rightarrow> db \<Rightarrow> (error + SwapRequest) \<times> db" where
  "cancel_handler user i now d =
     (case findById i d of
        None \<Rightarrow> (Inl SwapNotFound, d)
      | Some swapRequest \<Rightarrow>
          if fromUserId swapRequest \<noteq> user then (Inl OnlySender, d)
          else if status swapRequest \<noteq> Pending then (Inl NotPending, d)
          else
            let s = cancel swapRequest;
                d1 = save now s d
            in (Inr (s\<lparr>updatedAt := now\<rparr>), d1))"

text \<open>The router: which handler a lifecycle call reaches.\<close>

datatype action = Accept | Reject | Complete | Cancel

fun lifecycle :: "action \<Rightarrow> oid \<Rightarrow> oid \<Rightarrow> date \<Rightarrow> db \<Rightarrow> (error + SwapRequest) \<times> db" where
  "lifecycle Accept = accept_handler"
| "lifecycle Reject = reject_handler"
| "lifecycle Complete = complete_handler"
| "lifecycle Cancel = cancel_handler"







section \<open>Creating a swap request (POST /api/swaps)\<close>

definition valid_swap_fields :: "string \<Rightarrow> string \<Rightarrow> string \<Rightarrow> bool" where
  "valid_swap_fields so sw m =
     (1 \<le> length so \<and> length so \<le> 50 \<and> 1 \<le> length sw \<and> length sw \<le> 50
      \<and> 1 \<le> length m \<and> length m \<le> 500)"

text \<open>
  The filter of the \<open>findOne\<close> that looks for a pending request between the two users:
  \<open>$or: [{fromUserId: a, toUserId: b, status: 'pending'},
         {fromUserId: b, toUserId: a, status: 'pending'}]\<close>.
\<close>

definition pending_between :: "oid \<Rightarrow> oid \<Rightarrow> SwapRequest \<Rightarrow> bool" where
  "pending_between a b s =
     ((fromUserId s = a \<and> toUserId s = b \<and> status s = Pending)
      \<or> (fromUserId s = b \<and> toUserId s = a \<and> status s = Pending))"

text \<open>The store hands out an id no stored request has.\<close>

definition new_id :: "db \<Rightarrow> oid" where
  "new_id d = Suc (fold max (map sid (swapRequests d)) 0)"

definition no_feedback :: feedback where
  "no_feedback = \<lparr>fromUserRating = None, fromUserComment = None,
                  toUserRating = None, toUserComment = None\<rparr>"

text \<open>\<open>SwapRequest.create\<close>: the schema defaults fill status, completedAt and feedback.\<close>

definition create ::
  "oid \<Rightarrow> oid \<Rightarrow> string \<Rightarrow> string \<Rightarrow> string \<Rightarrow> date \<Rightarrow> db \<Rightarrow> SwapRequest \<times> db" where
  "create fromU toU so sw m now d =
     (let s = \<lparr>sid = new_id d, fromUserId = fromU, toUserId = toU, skillOffered = so,
                skillWanted = sw, message = m, status = Pending, completedAt = None,
                feedback = no_feedback, createdAt = now, updatedAt = now\<rparr>
      in (s, d\<lparr>swapRequests := swapRequests d @ [s]\<rparr>))"

text \<open>
  The self-swap guard compares \<open>req.user._id.toString()\<close> with the body string; the
  queries and \<open>create\<close> that follow use the ObjectId the string casts to.
\<close>

definition create_handler ::
  "oid \<Rightarrow> id_string \<Rightarrow> string \<Rightarrow> string \<Rightarrow> string \<Rightarrow> date \<Rightarrow> db \<Rightarrow> (error + SwapRequest) \<times> db" where
  "create_handler user toU so sw m now d =
     (if \<not> valid_swap_fields so sw m then (Inl ValidationError, d)
      else if user = cast_id toU \<and> lower_case toU then (Inl SelfSwap, d)
      else
        case find (pending_between user (cast_id toU)) (swapRequests d) of
          Some existingRequest \<Rightarrow> (Inl PendingExists, d)
        | None \<Rightarrow>
            let (s, d1) = create user (cast_id toU) so sw m now d;
                d2 = createSwapRequestNotification (cast_id toU) user (sid s) now d1
            in (Inr s, d2))"

section \<open>Rating aggregate\<close>

text \<open>
  A JavaScript number is an IEEE 754 double: zero, or a rational \<open>m * 2^e\<close> with
  \<open>2^52 \<le> |m| < 2^53\<close>. Every arithmetic operation returns the exact result rounded to the
  nearest double, ties to the even mantissa. The exponent range is left unbounded:
  ratings and review counts stay far from overflow and from the subnormal numbers.
\<close>

fun bitlen :: "nat \<Rightarrow> nat" where
  "bitlen n = (if n = 0 then 0 else Suc (bitlen (n div 2)))"

declare bitlen.simps [simp del]

definition pow2 :: "int \<Rightarrow> rat" where
  "pow2 e = (if 0 \<le> e then 2 ^ nat e else 1 / 2 ^ nat (- e))"

text \<open>The binary exponent of a positive rational: the \<open>k\<close> with \<open>2^k \<le> x < 2^(k+1)\<close>.\<close>

definition ilog2 :: "rat \<Rightarrow> int" where
  "ilog2 x = (if 1 \<le> x then int (bitlen (nat \<lfloor>x\<rfloor>)) - 1
              else - int (bitlen (nat (\<lceil>1 / x\<rceil> - 1))))"

definition round_half_even :: "rat \<Rightarrow> int" where
  "round_half_even x =
     (let f = \<lfloor>x\<rfloor>; d = x - of_int f
      in if d < 1 / 2 then f else if 1 / 2 < d then f + 1 else if even f then f else f + 1)"

definition double_round :: "rat \<Rightarrow> rat" where
  "double_round x =
     (if x = 0 then 0
      else let a = \<bar>x\<bar>; e = ilog2 a - 52
           in sgn x * of_int (round_half_even (a / pow2 e)) * pow2 e)"

definition double_mult :: "rat \<Rightarrow> rat \<Rightarrow> rat" where
  "double_mult a b = double_round (a * b)"

definition double_add :: "rat \<Rightarrow> rat \<Rightarrow> rat" where
  "double_add a b = double_round (a + b)"

definition double_div :: "rat \<Rightarrow> rat \<Rightarrow> rat" where
  "double_div a b = double_round (a / b)"

text \<open>
  Modelled from the spec: the arithmetic of \<open>User.updateRating\<close> (models/User.js is not
  among the sources). Section 4.2: the target's aggregate becomes
  \<open>newAvg = (oldAvg * oldCount + rating) / (oldCount + 1)\<close>, a floating-point mean that is
  not rounded further.
\<close>

definition new_average :: "rat \<Rightarrow> nat \<Rightarrow> rat \<Rightarrow> rat" where
  "new_average oldAvg oldCount r =
     double_div (double_add (double_mult oldAvg (of_nat oldCount)) r) (of_nat (oldCount + 1))"

text \<open>
  Modelled from the spec: \<open>User.updateRating\<close>, the method the feedback handler calls on
  the counterparty (models/User.js is not among the sources): it stores the new average
  of section 4.2 and increments the review count by one.
\<close>

definition updateRating :: "rat \<Rightarrow> User \<Rightarrow> User" where
  "updateRating r u =
     u\<lparr>rating := new_average (rating u) (reviewCount u) r,
       reviewCount := reviewCount u + 1\<rparr>"

section \<open>Feedback (POST /api/feedback/:swapId)\<close>

text \<open>JavaScript truthiness of a rating slot: \<open>null\<close> and \<open>0\<close> are falsy.\<close>

definition truthy :: "int option \<Rightarrow> bool" where
  "truthy r = (case r of None \<Rightarrow> False | Some n \<Rightarrow> n \<noteq> 0)"

definition isFeedbackComplete :: "SwapRequest \<Rightarrow> bool" where
  "isFeedbackComplete s =
     (truthy (fromUserRating (feedback s)) \<and> truthy (toUserRating (feedback s)))"

definition addFeedback :: "oid \<Rightarrow> int \<Rightarrow> string option \<Rightarrow> SwapRequest \<Rightarrow> SwapRequest" where
  "addFeedback u r c s =
     (if fromUserId s = u
        then s\<lparr>feedback := (feedback s)\<lparr>fromUserRating := Some r, fromUserComment := c\<rparr>\<rparr>
      else if toUserId s = u
        then s\<lparr>feedback := (feedback s)\<lparr>toUserRating := Some r, toUserComment := c\<rparr>\<rparr>
      else s)"

definition valid_feedback :: "int \<Rightarrow> string option \<Rightarrow> bool" where
  "valid_feedback r c =
     (1 \<le> r \<and> r \<le> 5 \<and> (case c of None \<Rightarrow> True | Some t \<Rightarrow> length t \<le> 200))"

text \<open>
  After \<open>addFeedback\<close> has saved the swap, the handler loads the counterparty; when that
  user is missing, \<open>targetUser.updateRating\<close> throws and the catch block answers 500,
  with the feedback already written.
\<close>

definition feedback_handler ::
  "oid \<Rightarrow> oid \<Rightarrow> int \<Rightarrow> string option \<Rightarrow> date \<Rightarrow> db \<Rightarrow> (error + SwapRequest) \<times> db" where
  "feedback_handler user swapId r c now d =
     (if \<not> valid_feedback r c then (Inl ValidationError, d)
      else
        case findById swapId d of
          None \<Rightarrow> (Inl SwapNotFound, d)
        | Some swapRequest \<Rightarrow>
            if fromUserId swapRequest \<noteq> user \<and> toUserId swapRequest \<noteq> user
              then (Inl NotInvolved, d)
            else if status swapRequest \<noteq> Completed then (Inl NotCompleted, d)
            else
              let isFromUser = (fromUserId swapRequest = user);
                  hasProvidedFeedback =
                    (if isFromUser then fromUserRating (feedback swapRequest) \<noteq> None
                     else toUserRating (feedback swapRequest) \<noteq> None)
              in
                if hasProvidedFeedback then (Inl AlreadyProvided, d)
                else
                  let s = addFeedback user r c swapRequest;
                      d1 = save now s d;
                      targetUserId = (if isFromUser then toUserId s else fromUserId s)
                  in
                    case findUserById targetUserId d1 of
                      None \<Rightarrow> (Inl ServerError, d1)
                    | Some targetUser \<Rightarrow>
                        let d2 = saveUser (updateRating (of_int r) targetUser) d1;
                            d3 = (if isFeedbackComplete s
                                  then createFeedbackReceivedNotification targetUserId swapId now d2
                                  else d2)
                        in (Inr (s\<lparr>updatedAt := now\<rparr>), d3))"

text \<open>The other participant of a swap, and the slot a participant's own feedback goes to.\<close>

definition counterparty :: "oid \<Rightarrow> SwapRequest \<Rightarrow> oid" where
  "counterparty user s = (if fromUserId s = user then toUserId s else fromUserId s)"

definition own_rating :: "oid \<Rightarrow> SwapRequest \<Rightarrow> int option" where
  "own_rating user s =
     (if fromUserId s = user then fromUserRating (feedback s) else toUserRating (feedback s))"

section \<open>Stores the handlers can reach\<close>

datatype event =
    Create oid id_string string string string date
  | Lifecycle action oid oid date
  | Feedback oid oid int "string option" date

fun step :: "event \<Rightarrow> db \<Rightarrow> db" where
  "step (Create user toU so sw m now) d = snd (create_handler user toU so sw m now d)"
| "step (Lifecycle a user i now) d = snd (lifecycle a user i now d)"
| "step (Feedback user i r c now) d = snd (feedback_handler user i r c now d)"

text \<open>
  A store starts without swap requests; every handler that writes swap requests is a
  step. User documents come and go through code outside the handlers modelled here
  (registration, profile edits, the admin routes), so they may change freely.
\<close>

inductive reachable :: "db \<Rightarrow> bool" where
  init: "reachable \<lparr>swapRequests = [], users = us, notifications = []\<rparr>"
| handler: "reachable d \<Longrightarrow> reachable (step e d)"
| users_change: "reachable d \<Longrightarrow> reachable (d\<lparr>users := us\<rparr>)"

section \<open>Admin: banning a user (PUT /api/admin/users/:id/ban)\<close>

text \<open>
  The router puts \<open>protect, admin\<close> in front of the handler, so the caller is an
  administrator. The optional \<open>reason\<close> of the body is validated and not used.
\<close>

definition valid_reason :: "string option \<Rightarrow> bool" where
  "valid_reason reason = (case reason of None \<Rightarrow> True | Some t \<Rightarrow> length t \<le> 200)"

definition ban_handler :: "oid \<Rightarrow> string option \<Rightarrow> db \<Rightarrow> (error + User) \<times> db" where
  "ban_handler user_id reason d =
     (if \<not> valid_reason reason then (Inl ValidationError, d)
      else
        case findUserById user_id d of
          None \<Rightarrow> (Inl UserNotFound, d)
        | Some user \<Rightarrow>
            if isBanned user then (Inl AlreadyBanned, d)
            else if isAdmin user then (Inl CannotBanAdmin, d)
            else
              let u = user\<lparr>isBanned := True\<rparr>
              in (Inr u, saveUser u d))"

section \<open>User directory queries (routes/users.js)\<close>

text \<open>
  GET /api/users/:id with \<open>optionalAuth\<close>: \<open>viewer\<close> is \<open>req.user._id\<close> when the request
  carries a valid token. The only visibility check is the one on \<open>isPublic\<close>.
\<close>

definition get_user_handler :: "oid option \<Rightarrow> oid \<Rightarrow> db \<Rightarrow> error + User" where
  "get_user_handler viewer i d =
     (case findUserById i d of
        None \<Rightarrow> Inl UserNotFound
      | Some user \<Rightarrow>
          if \<not> isPublic user \<and> (viewer = None \<or> viewer \<noteq> Some (uid user))
            then Inl ProfilePrivate
          else Inr user)"

text \<open>
  GET /api/users starts from \<open>{ isPublic: true, isBanned: false }\<close> and adds the optional
  search, skill, availability and location conditions; \<open>extra\<close> stands for their
  conjunction.
\<close>

definition list_users :: "(User \<Rightarrow> bool) \<Rightarrow> db \<Rightarrow> User list" where
  "list_users extra d = filter (\<lambda>u. isPublic u = True \<and> isBanned u = False \<and> extra u) (users d)"

text \<open>
  \<open>{ field: { $in: values } }\<close> on an array field: some element of the array equals some
  element of \<open>values\<close>.
\<close>

definition array_in :: "string list \<Rightarrow> string list \<Rightarrow> bool" where
  "array_in field vals = list_ex (\<lambda>x. list_ex (\<lambda>v. x = v) vals) field"

text \<open>
  The filter of the handler's \<open>countDocuments\<close>:
  \<open>{ _id: { $ne: id }, isPublic: true, isBanned: false,
      $or: [{ skillsOffered: { $in: user.skillsWanted } },
            { skillsWanted: { $in: user.skillsOffered } }] }\<close>.
\<close>

definition skill_match_filter :: "oid \<Rightarrow> User \<Rightarrow> User \<Rightarrow> bool" where
  "skill_match_filter i user v =
     (uid v \<noteq> i \<and> isPublic v = True \<and> isBanned v = False
      \<and> (array_in (skillsOffered v) (skillsWanted user)
         \<or> array_in (skillsWanted v) (skillsOffered user)))"

text \<open>
  Modelled from the spec: \<open>User.findSkillMatches\<close> (models/User.js is not among the
  sources). Section 4.3: given a user U, all other visible (public, non-banned) users V
  such that V's offered skills intersect U's wanted skills, or V's wanted skills
  intersect U's offered skills; U itself is excluded.
\<close>

definition findSkillMatches :: "oid \<Rightarrow> db \<Rightarrow> User list" where
  "findSkillMatches i d =
     (case findUserById i d of
        None \<Rightarrow> []
      | Some U \<Rightarrow>
          filter (\<lambda>V. uid V \<noteq> uid U \<and> isPublic V \<and> \<not> isBanned V
                      \<and> (set (skillsOffered V) \<inter> set (skillsWanted U) \<noteq> {}
                         \<or> set (skillsWanted V) \<inter> set (skillsOffered U) \<noteq> {}))
            (users d))"



section \<open>AdminMessage model (models/AdminMessage.js)\<close>

datatype message_type = info | warning | announcement | maintenance

record AdminMessage =
  title_m :: string
  message_m :: string
  type_m :: message_type
  isActive :: bool
  isGlobal :: bool
  targetUsers :: "oid list"
  expiresAt :: "date option"
  createdBy :: oid
  createdAt_m :: date

text \<open>The two virtuals; \<open>now\<close> is the \<open>new Date()\<close> the getter takes.\<close>

definition isExpired :: "date \<Rightarrow> AdminMessage \<Rightarrow> bool" where
  "isExpired now m = (case expiresAt m of None \<Rightarrow> False | Some e \<Rightarrow> now > e)"

definition shouldShow :: "date \<Rightarrow> AdminMessage \<Rightarrow> bool" where
  "shouldShow now m = (isActive m \<and> \<not> isExpired now m)"

text \<open>
  The derived property "visible" in the words of the specification (section 3): active
  AND (no expiry OR expiry in the future).
\<close>

definition visible_spec :: "date \<Rightarrow> AdminMessage \<Rightarrow> bool" where
  "visible_spec now m =
     (isActive m \<and> (case expiresAt m of None \<Rightarrow> True | Some e \<Rightarrow> now < e))"

text \<open>
  A query document is a JavaScript object literal. A literal that spells a key twice
  keeps one property under that key, with the value written last, at the position of
  the first.
\<close>

definition object_literal :: "('k \<times> 'v) list \<Rightarrow> ('k \<times> 'v) list" where
  "object_literal kvs = fold (\<lambda>(k, v). AList.update k v) kvs []"

datatype cond =
    Eq_isActive bool
  | Eq_isGlobal bool
  | Has_targetUsers oid
  | Eq_expiresAt_null
  | Gt_expiresAt date

fun cond_holds :: "cond \<Rightarrow> AdminMessage \<Rightarrow> bool" where
  "cond_holds (Eq_isActive b) m = (isActive m = b)"
| "cond_holds (Eq_isGlobal b) m = (isGlobal m = b)"
| "cond_holds (Has_targetUsers u) m = list_ex (\<lambda>x. x = u) (targetUsers m)"
| "cond_holds Eq_expiresAt_null m = (expiresAt m = None)"
| "cond_holds (Gt_expiresAt t) m = (case expiresAt m of None \<Rightarrow> False | Some e \<Rightarrow> e > t)"

datatype qvalue = Field cond | Or "cond list"

fun qvalue_holds :: "qvalue \<Rightarrow> AdminMessage \<Rightarrow> bool" where
  "qvalue_holds (Field c) m = cond_holds c m"
| "qvalue_holds (Or cs) m = list_ex (\<lambda>c. cond_holds c m) cs"

text \<open>\<open>find(query)\<close>: a document matches when the value under every key holds.\<close>

definition find_messages :: "(string \<times> qvalue) list \<Rightarrow> AdminMessage list \<Rightarrow> AdminMessage list" where
  "find_messages q ms = filter (\<lambda>m. list_all (\<lambda>kv. qvalue_holds (snd kv) m) q) ms"

definition sort_createdAt_desc :: "AdminMessage list \<Rightarrow> AdminMessage list" where
  "sort_createdAt_desc ms = sort_key (\<lambda>m. - createdAt_m m) ms"

definition getActiveGlobalMessages :: "date \<Rightarrow> AdminMessage list \<Rightarrow> AdminMessage list" where
  "getActiveGlobalMessages now ms =
     sort_createdAt_desc (find_messages (object_literal
       [(''isActive'', Field (Eq_isActive True)),
        (''isGlobal'', Field (Eq_isGlobal True)),
        (''$or'', Or [Eq_expiresAt_null, Gt_expiresAt now])]) ms)"

definition getActiveMessagesForUser :: "date \<Rightarrow> oid \<Rightarrow> AdminMessage list \<Rightarrow> AdminMessage list" where
  "getActiveMessagesForUser now user_id ms =
     sort_createdAt_desc (find_messages (object_literal
       [(''isActive'', Field (Eq_isActive True)),
        (''$or'', Or [Eq_isGlobal True, Has_targetUsers user_id]),
        (''$or'', Or [Eq_expiresAt_null, Gt_expiresAt now])]) ms)"

section \<open>The invariant of a stored swap request\<close>

text \<open>
  What every handler keeps true of a stored request: the completion time goes with the
  completed status, a rating slot is empty or holds a rating from 1 to 5, and a request
  of a user to themselves never has the recipient's slot filled.
\<close>

definition completedAt_ok :: "SwapRequest \<Rightarrow> bool" where
  "completedAt_ok s = ((completedAt s \<noteq> None) = (status s = Completed))"

definition rating_ok :: "int option \<Rightarrow> bool" where
  "rating_ok r = (case r of None \<Rightarrow> True | Some n \<Rightarrow> 1 \<le> n \<and> n \<le> 5)"

definition swap_ok :: "SwapRequest \<Rightarrow> bool" where
  "swap_ok s =
     (completedAt_ok s \<and> rating_ok (fromUserRating (feedback s))
      \<and> rating_ok (toUserRating (feedback s))
      \<and> (fromUserId s = toUserId s \<longrightarrow> toUserRating (feedback s) = None))"

definition store_ok :: "db \<Rightarrow> bool" where
  "store_ok d = list_all swap_ok (swapRequests d)"

section \<open>Example stores\<close>

text \<open>
  The scenario of the specification: A offers JavaScript and wants Python, B offers
  Python and wants JavaScript; A asks B for a swap.
\<close>

definition userA :: User where
  "userA = \<lparr>uid = 1, email = ''a@example.com'', name = ''A'', skillsOffered = [''JavaScript''],
            skillsWanted = [''Python''], isPublic = True, isAdmin = False, isBanned = False,
            rating = 0, reviewCount = 0\<rparr>"

definition userB :: User where
  "userB = \<lparr>uid = 2, email = ''b@example.com'', name = ''B'', skillsOffered = [''Python''],
            skillsWanted = [''JavaScript''], isPublic = True, isAdmin = False, isBanned = False,
            rating = 0, reviewCount = 0\<rparr>"

definition ex_swap :: SwapRequest where
  "ex_swap = \<lparr>sid = 10, fromUserId = 1, toUserId = 2, skillOffered = ''JavaScript'',
              skillWanted = ''Python'', message = ''Swap?'', status = Pending,
              completedAt = None, feedback = no_feedback, createdAt = 1000, updatedAt = 1000\<rparr>"

definition ex_db :: db where
  "ex_db = \<lparr>swapRequests = [ex_swap], users = [userA, userB], notifications = []\<rparr>"

definition ex_init :: db where
  "ex_init = \<lparr>swapRequests = [], users = [userA, userB], notifications = []\<rparr>"

definition ex_created :: db where
  "ex_created =
     step (Create 1 \<lparr>cast_id = 2, lower_case = True\<rparr> ''JavaScript'' ''Python'' ''Swap?'' 1000)
       ex_init"

definition ex_accepted :: db where
  "ex_accepted = step (Lifecycle Accept 2 1 2000) ex_created"

definition ex_completed :: db where
  "ex_completed = step (Lifecycle Complete 1 1 3000) ex_accepted"

definition ex_completed_swap :: SwapRequest where
  "ex_completed_swap = \<lparr>sid = 1, fromUserId = 1, toUserId = 2, skillOffered = ''JavaScript'',
              skillWanted = ''Python'', message = ''Swap?'', status = Completed,
              completedAt = Some 3000, feedback = no_feedback, createdAt = 1000, updatedAt = 3000\<rparr>"

text \<open>A rates B with 5, then B rates A with 4.\<close>

definition ex_half :: db where
  "ex_half = step (Feedback 1 1 5 None 4000) ex_completed"

definition ex_rated :: db where
  "ex_rated = step (Feedback 2 1 4 None 5000) ex_half"

definition ex_half_swap :: SwapRequest where
  "ex_half_swap = ex_completed_swap
     \<lparr>feedback := \<lparr>fromUserRating = Some 5, fromUserComment = None,
                    toUserRating = None, toUserComment = None\<rparr>,
      updatedAt := 4000\<rparr>"

definition ex_rated_swap :: SwapRequest where
  "ex_rated_swap = ex_completed_swap
     \<lparr>feedback := \<lparr>fromUserRating = Some 5, fromUserComment = None,
                    toUserRating = Some 4, toUserComment = None\<rparr>,
      updatedAt := 5000\<rparr>"

definition ex_feedback_note :: Notification where
  "ex_feedback_note =
     \<lparr>userId = 1, ntype = feedback_received, title = ''Feedback Received'',
      message_n = ''You have received feedback for a completed swap'', isRead = False,
      relatedId = Some 1, relatedModel = Some RelSwapRequest, metadata_fromUserId = None,
      createdAt_n = 5000\<rparr>"


text \<open>Eight ratings in two orders.\<close>

definition ex_ratings :: "rat list" where
  "ex_ratings = [3, 5, 2, 4, 4, 3, 5, 5]"

definition ex_ratings_reordered :: "rat list" where
  "ex_ratings_reordered = [3, 5, 5, 3, 4, 4, 5, 2]"

text \<open>User directories after a ban, and with an administrator.\<close>

definition ex_banned :: db where
  "ex_banned = ex_init\<lparr>users := [userA, userB\<lparr>isBanned := True\<rparr>]\<rparr>"

definition ex_staff :: db where
  "ex_staff = ex_init\<lparr>users := [userA\<lparr>isAdmin := True\<rparr>, userB]\<rparr>"

text \<open>Admin messages: a targeted one that expires at 100, and variations of it.\<close>

definition ex_message :: AdminMessage where
  "ex_message = \<lparr>title_m = ''Maintenance'', message_m = ''Back soon'', type_m = maintenance,
                 isActive = True, isGlobal = False, targetUsers = [7],
                 expiresAt = Some 100, createdBy = 9, createdAt_m = 50\<rparr>"

definition ex_messages :: "AdminMessage list" where
  "ex_messages =
     [ex_message,
      ex_message\<lparr>isActive := False\<rparr>,
      ex_message\<lparr>expiresAt := Some 60, isGlobal := True\<rparr>,
      ex_message\<lparr>expiresAt := None, targetUsers := [], createdAt_m := 70\<rparr>]"

section \<open>Store: helper facts\<close>

lemma findById_sid: "findById i d = Some s \<Longrightarrow> sid s = i"
  by (auto simp: findById_def find_Some_iff)

lemma findById_in_set: "findById i d = Some s \<Longrightarrow> s \<in> set (swapRequests d)"
  by (auto simp: findById_def find_Some_iff)

lemma find_map_replace:
  "find (\<lambda>s. sid s = i) xs = Some s \<Longrightarrow> sid s' = i \<Longrightarrow>
   find (\<lambda>s. sid s = i) (map (\<lambda>x. if sid x = i then s' else x) xs) = Some s'"
  by (induction xs) (auto split: if_splits)

lemma findById_save:
  "findById i d = Some s \<Longrightarrow> sid s' = i \<Longrightarrow>
   findById i (save now s' d) = Some (s'\<lparr>updatedAt := now\<rparr>)"
  unfolding findById_def save_def
  using find_map_replace [of i "swapRequests d" s "s'\<lparr>updatedAt := now\<rparr>"] by simp

lemma swapRequests_createNotification [simp]:
  "swapRequests (createNotification u t ti m r rm fu now d) = swapRequests d"
  by (simp add: createNotification_def)

lemma users_createNotification [simp]:
  "users (createNotification u t ti m r rm fu now d) = users d"
  by (simp add: createNotification_def)

lemma findById_createNotification [simp]:
  "findById i (createNotification u t ti m r rm fu now d) = findById i d"
  by (simp add: findById_def)

lemma findUserById_createNotification [simp]:
  "findUserById j (createNotification u t ti m r rm fu now d) = findUserById j d"
  by (simp add: findUserById_def)

lemma swapRequests_saveUser [simp]: "swapRequests (saveUser u d) = swapRequests d"
  by (simp add: saveUser_def)

lemma findById_saveUser [simp]: "findById i (saveUser u d) = findById i d"
  by (simp add: findById_def)

lemma users_save [simp]: "users (save now s d) = users d"
  by (simp add: save_def)

lemma findUserById_save [simp]: "findUserById i (save now s d) = findUserById i d"
  by (simp add: findUserById_def)

lemma notifications_save [simp]: "notifications (save now s d) = notifications d"
  by (simp add: save_def)

lemma notifications_saveUser [simp]: "notifications (saveUser u d) = notifications d"
  by (simp add: saveUser_def)

lemma findUserById_uid: "findUserById i d = Some u \<Longrightarrow> uid u = i"
  by (auto simp: findUserById_def find_Some_iff)

lemma find_user_map_replace:
  "find (\<lambda>u. uid u = i) xs = Some u \<Longrightarrow> uid u' = i \<Longrightarrow>
   find (\<lambda>u. uid u = i) (map (\<lambda>x. if uid x = i then u' else x) xs) = Some u'"
  by (induction xs) (auto split: if_splits)

lemma findUserById_saveUser:
  "findUserById i d = Some u \<Longrightarrow> uid u' = i \<Longrightarrow> findUserById i (saveUser u' d) = Some u'"
  unfolding findUserById_def saveUser_def
  using find_user_map_replace [of i "users d" u u'] by simp

lemmas notification_defs =
  createSwapRequestNotification_def createSwapAcceptedNotification_def
  createSwapRejectedNotification_def createSwapCompletedNotification_def
  createFeedbackReceivedNotification_def

section \<open>Lifecycle: helper facts\<close>







section \<open>Invariant: helper facts\<close>

lemma swap_ok_updatedAt [simp]: "swap_ok (s\<lparr>updatedAt := t\<rparr>) = swap_ok s"
  by (simp add: swap_ok_def completedAt_ok_def)

lemma store_ok_save: "store_ok d \<Longrightarrow> swap_ok s \<Longrightarrow> store_ok (save now s d)"
  by (auto simp: store_ok_def save_def list_all_iff)

lemma store_ok_createNotification [simp]:
  "store_ok (createNotification u t ti m r rm fu now d) = store_ok d"
  by (simp add: store_ok_def)

lemma store_ok_saveUser [simp]: "store_ok (saveUser u d) = store_ok d"
  by (simp add: store_ok_def)

lemma store_ok_findById: "store_ok d \<Longrightarrow> findById i d = Some s \<Longrightarrow> swap_ok s"
  using findById_in_set [of i d s] by (simp add: store_ok_def list_all_iff)

lemma accept_ok: "status s = Pending \<Longrightarrow> swap_ok s \<Longrightarrow> swap_ok (accept s)"
  by (simp add: swap_ok_def completedAt_ok_def accept_def)

lemma reject_ok: "status s = Pending \<Longrightarrow> swap_ok s \<Longrightarrow> swap_ok (reject s)"
  by (simp add: swap_ok_def completedAt_ok_def reject_def)

lemma cancel_ok: "status s = Pending \<Longrightarrow> swap_ok s \<Longrightarrow> swap_ok (cancel s)"
  by (simp add: swap_ok_def completedAt_ok_def cancel_def)

lemma complete_ok: "swap_ok s \<Longrightarrow> swap_ok (complete now s)"
  by (simp add: swap_ok_def completedAt_ok_def complete_def)

lemma addFeedback_ok: "valid_feedback r c \<Longrightarrow> swap_ok s \<Longrightarrow> swap_ok (addFeedback u r c s)"
  by (simp add: addFeedback_def swap_ok_def completedAt_ok_def rating_ok_def valid_feedback_def)

lemma accept_handler_ok: "store_ok d \<Longrightarrow> store_ok (snd (accept_handler u i now d))"
  by (simp add: accept_handler_def Let_def populate_def notification_defs store_ok_save accept_ok
      store_ok_findById split: option.split)

lemma reject_handler_ok: "store_ok d \<Longrightarrow> store_ok (snd (reject_handler u i now d))"
  by (simp add: reject_handler_def Let_def populate_def notification_defs store_ok_save reject_ok
      store_ok_findById split: option.split)

lemma complete_handler_ok: "store_ok d \<Longrightarrow> store_ok (snd (complete_handler u i now d))"
  by (simp add: complete_handler_def Let_def populate_def notification_defs store_ok_save complete_ok
      store_ok_findById split: option.split)

lemma cancel_handler_ok: "store_ok d \<Longrightarrow> store_ok (snd (cancel_handler u i now d))"
  by (simp add: cancel_handler_def Let_def store_ok_save cancel_ok
      store_ok_findById split: option.split)

lemma create_handler_ok: "store_ok d \<Longrightarrow> store_ok (snd (create_handler user toU so sw m now d))"
  by (simp add: create_handler_def create_def Let_def notification_defs store_ok_def
      swap_ok_def completedAt_ok_def rating_ok_def no_feedback_def split: option.split)

lemma feedback_handler_ok: "store_ok d \<Longrightarrow> store_ok (snd (feedback_handler user i r c now d))"
  by (simp add: feedback_handler_def Let_def notification_defs store_ok_save addFeedback_ok
      store_ok_findById split: option.split)

lemma step_ok: "store_ok d \<Longrightarrow> store_ok (step e d)"
proof (cases e)
  case (Lifecycle a u i now)
  assume "store_ok d"
  then show ?thesis using Lifecycle
    by (cases a)
       (simp_all add: accept_handler_ok reject_handler_ok complete_handler_ok cancel_handler_ok)
qed (simp_all add: create_handler_ok feedback_handler_ok)

lemma reachable_ok: "reachable d \<Longrightarrow> store_ok d"
proof (induction rule: reachable.induct)
  case (init us)
  then show ?case by (simp add: store_ok_def)
next
  case (handler d e)
  then show ?case by (simp add: step_ok)
next
  case (users_change d us)
  then show ?case by (simp add: store_ok_def)
qed

section \<open>Feedback: helper facts\<close>

lemma isFeedbackComplete_updatedAt [simp]:
  "isFeedbackComplete (s\<lparr>updatedAt := t\<rparr>) = isFeedbackComplete s"
  by (simp add: isFeedbackComplete_def)

lemma addFeedback_ids [simp]:
  "fromUserId (addFeedback u r c s) = fromUserId s"
  "toUserId (addFeedback u r c s) = toUserId s"
  "sid (addFeedback u r c s) = sid s"
  "status (addFeedback u r c s) = status s"
  by (simp_all add: addFeedback_def)

lemma feedback_success:
  assumes "feedback_handler user i r c now d = (Inr s', d')"
  shows "\<exists>s u. findById i d = Some s \<and> valid_feedback r c
           \<and> (fromUserId s = user \<or> toUserId s = user) \<and> status s = Completed
           \<and> own_rating user s = None
           \<and> s' = (addFeedback user r c s)\<lparr>updatedAt := now\<rparr>
           \<and> findUserById (counterparty user s) d = Some u
           \<and> d' = (if isFeedbackComplete s'
                    then createFeedbackReceivedNotification (counterparty user s) i now
                    else (\<lambda>x. x))
                   (saveUser (updateRating (of_int r) u) (save now (addFeedback user r c s) d))"
proof (cases "findById i d")
  case None
  then show ?thesis using assms by (simp add: feedback_handler_def split: if_splits)
next
  case (Some s)
  show ?thesis
    using assms Some
    by (auto simp: feedback_handler_def Let_def findUserById_def counterparty_def
        own_rating_def split: if_splits option.splits)
qed


lemma rating_ok_truthy: "rating_ok r \<Longrightarrow> r \<noteq> None \<Longrightarrow> truthy r"
  by (auto simp: rating_ok_def truthy_def)

lemma counterparty_updatedAt [simp]: "counterparty u (s\<lparr>updatedAt := t\<rparr>) = counterparty u s"
  by (simp add: counterparty_def)

lemma counterparty_addFeedback [simp]: "counterparty u (addFeedback v r c s) = counterparty u s"
  by (simp add: counterparty_def)

lemma own_rating_addFeedback:
  "fromUserId s = user \<or> toUserId s = user \<Longrightarrow> own_rating user (addFeedback user r c s) = Some r"
  by (auto simp: own_rating_def addFeedback_def)

lemma own_rating_updatedAt [simp]: "own_rating u (s\<lparr>updatedAt := t\<rparr>) = own_rating u s"
  by (simp add: own_rating_def)

lemma feedback_refused:
  assumes "findById i d = Some s"
    and "status s \<noteq> Completed \<or> (user \<noteq> fromUserId s \<and> user \<noteq> toUserId s)
         \<or> own_rating user s \<noteq> None"
  shows "\<exists>e. feedback_handler user i r c now d = (Inl e, d)"
  using assms by (auto simp: feedback_handler_def own_rating_def Let_def)

lemma feedback_stored:
  assumes "feedback_handler user i r c now d = (Inr s', d')"
  shows "findById i d' = Some s' \<and> own_rating user s' = Some r"
proof -
  from feedback_success [OF assms] obtain s u where
    f: "findById i d = Some s"
    and p: "fromUserId s = user \<or> toUserId s = user"
    and s': "s' = (addFeedback user r c s)\<lparr>updatedAt := now\<rparr>"
    and d': "d' = (if isFeedbackComplete s'
                    then createFeedbackReceivedNotification (counterparty user s) i now
                    else (\<lambda>x. x))
                   (saveUser (updateRating (of_int r) u) (save now (addFeedback user r c s) d))"
    by blast
  have "sid (addFeedback user r c s) = i" using f findById_sid by simp
  from findById_save [OF f this, of now]
  have "findById i d' = Some s'" using d' s'
    by (simp add: createFeedbackReceivedNotification_def)
  then show ?thesis using s' p by (simp add: own_rating_addFeedback)
qed

section \<open>Rating aggregate: helper facts\<close>

text \<open>Single updates in double arithmetic, evaluated.\<close>

lemma new_average_0_0: "new_average 0 0 3 = 3"
  by code_simp

lemma new_average_0_1: "new_average 0 0 4 = 4"
  by code_simp

lemma new_average_0_2: "new_average 0 0 5 = 5"
  by code_simp

lemma new_average_1_3: "new_average 3 1 4 = (7 / 2)"
  by code_simp

lemma new_average_1_4: "new_average 3 1 5 = 4"
  by code_simp

lemma new_average_1_5: "new_average 4 1 3 = (7 / 2)"
  by code_simp

lemma new_average_1_6: "new_average 4 1 5 = (9 / 2)"
  by code_simp

lemma new_average_1_7: "new_average 5 1 3 = 4"
  by code_simp

lemma new_average_1_8: "new_average 5 1 4 = (9 / 2)"
  by code_simp

lemma new_average_2_9: "new_average (7 / 2) 2 5 = 4"
  by code_simp

lemma new_average_2_10: "new_average 4 2 2 = (7505999378950827 / 2251799813685248)"
  by code_simp

lemma new_average_2_11: "new_average 4 2 4 = 4"
  by code_simp

lemma new_average_2_12: "new_average 4 2 5 = (4878899596318037 / 1125899906842624)"
  by code_simp

lemma new_average_2_13: "new_average (9 / 2) 2 3 = 4"
  by code_simp

lemma new_average_3_14: "new_average (7505999378950827 / 2251799813685248) 3 4 = (7 / 2)"
  by code_simp

lemma new_average_3_15: "new_average (4878899596318037 / 1125899906842624) 3 3 = 4"
  by code_simp

lemma new_average_4_16: "new_average (7 / 2) 4 4 = (8106479329266893 / 2251799813685248)"
  by code_simp

lemma new_average_4_17: "new_average 4 4 4 = 4"
  by code_simp

lemma new_average_5_18: "new_average (8106479329266893 / 2251799813685248) 5 3 = (7 / 2)"
  by code_simp

lemma new_average_5_19: "new_average 4 5 4 = 4"
  by code_simp

lemma new_average_6_20: "new_average (7 / 2) 6 5 = (4181913939701175 / 1125899906842624)"
  by code_simp

lemma new_average_6_21: "new_average 4 6 5 = (4664442471205157 / 1125899906842624)"
  by code_simp

lemma new_average_7_22: "new_average (4181913939701175 / 1125899906842624) 7 5 = (31 / 8)"
  by code_simp

lemma new_average_7_23: "new_average (4664442471205157 / 1125899906842624) 7 2 = (8725724278030337 / 2251799813685248)"
  by code_simp
lemma uid_updateRating [simp]: "uid (updateRating r u) = uid u"
  by (simp add: updateRating_def)

lemma reviewCount_fold: "reviewCount (fold updateRating rs u) = reviewCount u + length rs"
  by (induction rs arbitrary: u) (simp_all add: updateRating_def)

lemma updateRating_step:
  assumes "rating u = a" and "reviewCount u = n" and "new_average a n r = a'" and "n + 1 = n'"
  shows "rating (updateRating r u) = a'" and "reviewCount (updateRating r u) = n'"
  using assms by (simp_all add: updateRating_def)

lemma three_ratings:
  assumes "rating u = 0" and "reviewCount u = 0"
  shows "rating (fold updateRating [a, b, c] u)
           = new_average (new_average (new_average 0 0 a) 1 b) 2 c"
  using assms by (simp add: updateRating_def numeral_2_eq_2)

lemma orders_of_5_3_4:
  assumes "mset rs = mset [5, 3, 4 :: rat]"
  shows "rs \<in> {[5, 3, 4], [5, 4, 3], [3, 5, 4], [3, 4, 5], [4, 5, 3], [4, 3, 5]}"
proof -
  have "size (mset rs) = size (mset [5, 3, 4 :: rat])" using assms by simp
  then have "length rs = 3" by simp
  then obtain a b c where rs: "rs = [a, b, c]"
    by (auto simp: length_Suc_conv numeral_3_eq_3)
  have "a \<in># mset rs" "b \<in># mset rs" "c \<in># mset rs"
    unfolding rs by simp_all
  then have m: "a \<in> {5, 3, 4}" "b \<in> {5, 3, 4}" "c \<in> {5, 3, 4}"
    unfolding assms by simp_all
  have "distinct rs = distinct [5, 3, 4 :: rat]"
    using assms by (rule mset_eq_imp_distinct_iff)
  then have d: "a \<noteq> b" "a \<noteq> c" "b \<noteq> c" unfolding rs by simp_all
  show ?thesis unfolding rs using m d by (elim insertE emptyE; simp)
qed

section \<open>Directory, ban and message queries: helper facts\<close>



lemma ban_refused:
  assumes "findUserById i d = Some u" and "isAdmin u \<or> isBanned u"
  shows "\<exists>e. ban_handler i reason d = (Inl e, d)"
  using assms by (auto simp: ban_handler_def)

lemma ban_refused_reason:
  assumes "findUserById i d = Some u" and "valid_reason reason"
  shows "isBanned u \<Longrightarrow> ban_handler i reason d = (Inl AlreadyBanned, d)"
    and "\<not> isBanned u \<Longrightarrow> isAdmin u \<Longrightarrow> ban_handler i reason d = (Inl CannotBanAdmin, d)"
  using assms by (simp_all add: ban_handler_def)

lemma users_saveUser_banned:
  "v \<in> set (users (saveUser (u\<lparr>isBanned := True\<rparr>) d)) \<Longrightarrow> uid v = uid u \<Longrightarrow> isBanned v"
  by (auto simp: saveUser_def split: if_splits)

lemma findSkillMatches_visible:
  "v \<in> set (findSkillMatches j d) \<Longrightarrow> v \<in> set (users d) \<and> \<not> isBanned v"
  by (auto simp: findSkillMatches_def split: option.splits)

lemma user_query_literal:
  "object_literal
     [(''isActive'', Field (Eq_isActive True)),
      (''$or'', Or [Eq_isGlobal True, Has_targetUsers u]),
      (''$or'', Or [Eq_expiresAt_null, Gt_expiresAt now])]
   = [(''isActive'', Field (Eq_isActive True)),
      (''$or'', Or [Eq_expiresAt_null, Gt_expiresAt now])]"
  by (simp add: object_literal_def)

section \<open>Example stores: evaluation\<close>

lemmas ex_defs = ex_db_def ex_swap_def userA_def userB_def no_feedback_def

lemma ex_created_swaps:
  "swapRequests ex_created
     = [ex_completed_swap\<lparr>status := Pending, completedAt := None, updatedAt := 1000\<rparr>]"
  by (simp add: ex_created_def ex_init_def create_handler_def create_def valid_swap_fields_def
      pending_between_def Let_def notification_defs new_id_def ex_completed_swap_def)

lemma ex_created_users: "users ex_created = [userA, userB]"
  by (simp add: ex_created_def ex_init_def create_handler_def create_def valid_swap_fields_def
      pending_between_def Let_def notification_defs)

lemma ex_created_ntypes: "map ntype (notifications ex_created) = [swap_request]"
  by (simp add: ex_created_def ex_init_def create_handler_def create_def valid_swap_fields_def
      pending_between_def Let_def notification_defs createNotification_def)

lemma ex_accepted_call:
  "accept_handler 2 1 2000 ex_created
     = (Inr (ex_completed_swap\<lparr>status := Accepted, completedAt := None, updatedAt := 2000\<rparr>),
        createSwapAcceptedNotification 1 1 2000
          (ex_created\<lparr>swapRequests :=
             [ex_completed_swap\<lparr>status := Accepted, completedAt := None, updatedAt := 2000\<rparr>]\<rparr>))"
  by (simp add: ex_created_swaps ex_created_users accept_handler_def findById_def populate_def
      findUserById_def accept_def save_def Let_def ex_completed_swap_def userA_def userB_def)

lemma ex_accepted_eval:
  "ex_accepted = createSwapAcceptedNotification 1 1 2000
          (ex_created\<lparr>swapRequests :=
             [ex_completed_swap\<lparr>status := Accepted, completedAt := None, updatedAt := 2000\<rparr>]\<rparr>)"
  unfolding ex_accepted_def step.simps lifecycle.simps ex_accepted_call by simp

lemma ex_accepted_swaps:
  "swapRequests ex_accepted
     = [ex_completed_swap\<lparr>status := Accepted, completedAt := None, updatedAt := 2000\<rparr>]"
  by (simp add: ex_accepted_eval notification_defs)

lemma ex_accepted_users: "users ex_accepted = [userA, userB]"
  by (simp add: ex_accepted_eval notification_defs ex_created_users)

lemma ex_accepted_ntypes: "map ntype (notifications ex_accepted) = [swap_request, swap_accepted]"
  by (simp add: ex_accepted_eval notification_defs createNotification_def ex_created_ntypes)

lemma ex_completed_call:
  "complete_handler 1 1 3000 ex_accepted
     = (Inr ex_completed_swap,
        createSwapCompletedNotification 2 1 3000
          (createSwapCompletedNotification 1 1 3000
             (ex_accepted\<lparr>swapRequests := [ex_completed_swap]\<rparr>)))"
  by (simp add: ex_accepted_swaps ex_accepted_users complete_handler_def findById_def
      populate_def findUserById_def complete_def save_def Let_def notification_defs
      ex_completed_swap_def userA_def userB_def)

lemma ex_completed_eval:
  "ex_completed = createSwapCompletedNotification 2 1 3000
          (createSwapCompletedNotification 1 1 3000
             (ex_accepted\<lparr>swapRequests := [ex_completed_swap]\<rparr>))"
  unfolding ex_completed_def step.simps lifecycle.simps ex_completed_call by simp

lemma ex_completed_swaps: "swapRequests ex_completed = [ex_completed_swap]"
  by (simp add: ex_completed_eval notification_defs)

lemma ex_completed_users: "users ex_completed = [userA, userB]"
  by (simp add: ex_completed_eval notification_defs ex_accepted_users)

lemma ex_completed_ntypes:
  "map ntype (notifications ex_completed) = [swap_request, swap_accepted, swap_completed, swap_completed]"
  by (simp add: ex_completed_eval notification_defs createNotification_def ex_accepted_ntypes)

lemma ex_completed_reachable: "reachable ex_completed"
  unfolding ex_completed_def ex_accepted_def ex_created_def ex_init_def
  by (intro reachable.handler reachable.init)

lemma ex_half_call:
  "feedback_handler 1 1 5 None 4000 ex_completed
     = (Inr ex_half_swap,
        ex_completed\<lparr>swapRequests := [ex_half_swap],
                     users := [userA, userB\<lparr>rating := 5, reviewCount := 1\<rparr>]\<rparr>)"
  by (simp add: feedback_handler_def valid_feedback_def findById_def findUserById_def
      ex_completed_swaps ex_completed_users ex_completed_swap_def ex_half_swap_def
      addFeedback_def save_def saveUser_def updateRating_def isFeedbackComplete_def truthy_def
      no_feedback_def userA_def userB_def Let_def new_average_0_2)

lemma ex_half_eval:
  "ex_half = ex_completed\<lparr>swapRequests := [ex_half_swap],
                           users := [userA, userB\<lparr>rating := 5, reviewCount := 1\<rparr>]\<rparr>"
  unfolding ex_half_def step.simps ex_half_call by simp

lemma ex_rated_call:
  "feedback_handler 2 1 4 None 5000 ex_half
     = (Inr ex_rated_swap,
        ex_completed\<lparr>swapRequests := [ex_rated_swap],
                     users := [userA\<lparr>rating := 4, reviewCount := 1\<rparr>,
                               userB\<lparr>rating := 5, reviewCount := 1\<rparr>],
                     notifications := notifications ex_completed @ [ex_feedback_note]\<rparr>)"
  by (simp add: feedback_handler_def valid_feedback_def findById_def findUserById_def
      ex_half_eval ex_completed_swap_def ex_half_swap_def ex_rated_swap_def ex_feedback_note_def
      addFeedback_def save_def saveUser_def updateRating_def isFeedbackComplete_def truthy_def
      no_feedback_def userA_def userB_def Let_def createFeedbackReceivedNotification_def
      createNotification_def new_average_0_1)

lemma ex_rated_eval:
  "ex_rated = ex_completed\<lparr>swapRequests := [ex_rated_swap],
                     users := [userA\<lparr>rating := 4, reviewCount := 1\<rparr>,
                               userB\<lparr>rating := 5, reviewCount := 1\<rparr>],
                     notifications := notifications ex_completed @ [ex_feedback_note]\<rparr>"
  unfolding ex_rated_def step.simps ex_rated_call by simp

lemma ex_half_reachable: "reachable ex_half"
  unfolding ex_half_def by (intro reachable.handler ex_completed_reachable)

lemma ex_completed_no_feedback_notes:
  "filter (\<lambda>n. ntype n = feedback_received) (notifications ex_completed) = []"
proof -
  have "\<forall>n\<in>set (notifications ex_completed). ntype n \<in> set (map ntype (notifications ex_completed))"
    by simp
  then show ?thesis by (auto simp: filter_empty_conv ex_completed_ntypes)
qed




lemma ex_ban_call:
  "ban_handler 2 (Some ''spam'') ex_init = (Inr (userB\<lparr>isBanned := True\<rparr>), ex_banned)"
  by (simp add: ban_handler_def valid_reason_def saveUser_def findUserById_def ex_banned_def
      ex_init_def userA_def userB_def Let_def)

lemma ex_staff_call: "ban_handler 1 None ex_staff = (Inl CannotBanAdmin, ex_staff)"
  by (simp add: ban_handler_def valid_reason_def findUserById_def ex_staff_def ex_init_def
      userA_def)

lemma ex_banned_listing:
  "list_users (\<lambda>u. True) ex_banned = [userA] \<and> findSkillMatches 1 ex_banned = []"
  by (simp add: list_users_def findSkillMatches_def findUserById_def ex_banned_def ex_init_def
      userA_def userB_def)

lemma ex_banned_profile: "get_user_handler None 2 ex_banned = Inr (userB\<lparr>isBanned := True\<rparr>)"
  by (simp add: get_user_handler_def findUserById_def ex_banned_def ex_init_def userA_def
      userB_def)

lemma ex_ratings_final:
  "rating (fold updateRating ex_ratings userA) = 31 / 8"
  "rating (fold updateRating ex_ratings_reordered userA) = 8725724278030337 / 2251799813685248"
proof -
  have u0: "rating userA = 0" "reviewCount userA = 0" by (simp_all add: userA_def)
  have p: "(0::nat) + 1 = 1" "(1::nat) + 1 = 2" "(2::nat) + 1 = 3" "(3::nat) + 1 = 4"
    "(4::nat) + 1 = 5" "(5::nat) + 1 = 6" "(6::nat) + 1 = 7" "(7::nat) + 1 = 8"
    by simp_all
  note a1 = updateRating_step [OF u0 new_average_0_0 p(1)]
  note a2 = updateRating_step [OF a1 new_average_1_4 p(2)]
  note a3 = updateRating_step [OF a2 new_average_2_10 p(3)]
  note a4 = updateRating_step [OF a3 new_average_3_14 p(4)]
  note a5 = updateRating_step [OF a4 new_average_4_16 p(5)]
  note a6 = updateRating_step [OF a5 new_average_5_18 p(6)]
  note a7 = updateRating_step [OF a6 new_average_6_20 p(7)]
  note a8 = updateRating_step [OF a7 new_average_7_22 p(8)]
  note b1 = updateRating_step [OF u0 new_average_0_0 p(1)]
  note b2 = updateRating_step [OF b1 new_average_1_4 p(2)]
  note b3 = updateRating_step [OF b2 new_average_2_12 p(3)]
  note b4 = updateRating_step [OF b3 new_average_3_15 p(4)]
  note b5 = updateRating_step [OF b4 new_average_4_17 p(5)]
  note b6 = updateRating_step [OF b5 new_average_5_19 p(6)]
  note b7 = updateRating_step [OF b6 new_average_6_21 p(7)]
  note b8 = updateRating_step [OF b7 new_average_7_23 p(8)]
  show "rating (fold updateRating ex_ratings userA) = 31 / 8"
    using a8(1) by (simp add: ex_ratings_def)
  show "rating (fold updateRating ex_ratings_reordered userA) = 8725724278030337 / 2251799813685248"
    using b8(1) by (simp add: ex_ratings_reordered_def)
qed

section \<open>Claims\<close>



text \<open>
  C2 (as amended). Whenever a successful feedback submission on a swap of a reachable
  store leaves both feedback slots populated, exactly one "feedback received"
  notification is created: it is addressed to the counterparty of the submitter, the
  participant who was just rated, and the submitter is not notified.
\<close>

theorem feedback_complete_notifies_counterparty:
  assumes "reachable d" and "feedback_handler user i r c now d = (Inr s', d')"
    and "fromUserRating (feedback s') \<noteq> None" and "toUserRating (feedback s') \<noteq> None"
  shows "notifications d' = notifications d @
           [\<lparr>userId = counterparty user s', ntype = feedback_received,
             title = ''Feedback Received'',
             message_n = ''You have received feedback for a completed swap'',
             isRead = False, relatedId = Some i, relatedModel = Some RelSwapRequest,
             metadata_fromUserId = None, createdAt_n = now\<rparr>]
       \<and> counterparty user s' \<noteq> user
       \<and> (counterparty user s' = fromUserId s' \<or> counterparty user s' = toUserId s')"
proof -
  from feedback_success [OF assms(2)] obtain s u where
    f: "findById i d = Some s" and v: "valid_feedback r c"
    and p: "fromUserId s = user \<or> toUserId s = user"
    and s': "s' = (addFeedback user r c s)\<lparr>updatedAt := now\<rparr>"
    and d': "d' = (if isFeedbackComplete s'
                    then createFeedbackReceivedNotification (counterparty user s) i now
                    else (\<lambda>x. x))
                   (saveUser (updateRating (of_int r) u) (save now (addFeedback user r c s) d))"
    by blast
  have "swap_ok s" using assms(1) f reachable_ok store_ok_findById by blast
  then have ok: "swap_ok s'" using v s' by (simp add: addFeedback_ok)
  then have "isFeedbackComplete s'"
    using assms(3,4) by (simp add: isFeedbackComplete_def swap_ok_def rating_ok_truthy)
  then have n: "notifications d' = notifications d @
           [\<lparr>userId = counterparty user s', ntype = feedback_received,
             title = ''Feedback Received'',
             message_n = ''You have received feedback for a completed swap'',
             isRead = False, relatedId = Some i, relatedModel = Some RelSwapRequest,
             metadata_fromUserId = None, createdAt_n = now\<rparr>]"
    using d' s' by (simp add: createFeedbackReceivedNotification_def createNotification_def)
  have "fromUserId s' \<noteq> toUserId s'" using ok assms(4) by (auto simp: swap_ok_def)
  then have c: "counterparty user s' \<noteq> user
       \<and> (counterparty user s' = fromUserId s' \<or> counterparty user s' = toUserId s')"
    using p s' by (auto simp: counterparty_def)
  show ?thesis using n c by blast
qed

theorem feedback_complete_notifies_counterparty_witness:
  "reachable ex_half
   \<and> feedback_handler 2 1 4 None 5000 ex_half = (Inr ex_rated_swap, ex_rated)
   \<and> fromUserRating (feedback ex_rated_swap) = Some 5
   \<and> toUserRating (feedback ex_rated_swap) = Some 4
   \<and> notifications ex_rated = notifications ex_half @ [ex_feedback_note]"
proof -
  have c: "feedback_handler 2 1 4 None 5000 ex_half = (Inr ex_rated_swap, ex_rated)"
    unfolding ex_rated_call ex_rated_eval by simp
  have a: "fromUserRating (feedback ex_rated_swap) \<noteq> None"
    and b: "toUserRating (feedback ex_rated_swap) \<noteq> None"
    by (simp_all add: ex_rated_swap_def)
  show ?thesis
    using feedback_complete_notifies_counterparty [OF ex_half_reachable c a b] c ex_half_reachable
    by (simp add: counterparty_def ex_rated_swap_def ex_completed_swap_def ex_feedback_note_def)
qed

text \<open>
  C2 as stated fails in the scenario of the specification: A has rated B; when B rates A
  both slots are populated, and the only "feedback received" notification in the store goes
  to A (user 1), none to B (user 2).
\<close>

theorem feedback_notifies_both_counterexample:
  "fromUserId ex_rated_swap = 1 \<and> toUserId ex_rated_swap = 2
   \<and> feedback_handler 2 1 4 None 5000 ex_half = (Inr ex_rated_swap, ex_rated)
   \<and> fromUserRating (feedback ex_rated_swap) = Some 5
   \<and> toUserRating (feedback ex_rated_swap) = Some 4
   \<and> map userId (filter (\<lambda>n. ntype n = feedback_received) (notifications ex_rated)) = [1]"
  unfolding ex_rated_call ex_rated_eval
  by (simp add: ex_completed_no_feedback_notes ex_rated_swap_def ex_completed_swap_def
      ex_feedback_note_def)

text \<open>
  C3. For every feedback submission on a stored swap: it is rejected when the swap is not
  completed, rejected when the caller is neither the requester nor the recipient, and
  rejected when the caller's own slot is already populated; a rejection writes nothing.
  After a successful submission the caller's slot holds the submitted rating, and every
  further submission by the same caller on that swap is rejected and leaves the store,
  hence the stored rating and comment, as the first submission left it.
\<close>

theorem feedback_rejections:
  assumes "findById i d = Some s"
  shows "(status s \<noteq> Completed \<longrightarrow> (\<exists>e. feedback_handler user i r c now d = (Inl e, d)))
       \<and> (user \<noteq> fromUserId s \<and> user \<noteq> toUserId s \<longrightarrow>
            (\<exists>e. feedback_handler user i r c now d = (Inl e, d)))
       \<and> (own_rating user s \<noteq> None \<longrightarrow>
            (\<exists>e. feedback_handler user i r c now d = (Inl e, d)))
       \<and> (\<forall>s' d'. feedback_handler user i r c now d = (Inr s', d') \<longrightarrow>
            own_rating user s' = Some r \<and> findById i d' = Some s'
            \<and> (\<forall>r2 c2 now2. \<exists>e. feedback_handler user i r2 c2 now2 d' = (Inl e, d')))"
proof -
  have "\<exists>e. feedback_handler user i r2 c2 now2 d' = (Inl e, d')"
    if "feedback_handler user i r c now d = (Inr s', d')" for s' d' r2 c2 now2
  proof -
    from feedback_stored [OF that] have "findById i d' = Some s'" "own_rating user s' \<noteq> None"
      by simp_all
    then show ?thesis using feedback_refused [of i d' s' user] by blast
  qed
  then show ?thesis
    using feedback_refused [OF assms, of user r c now] feedback_stored [of user i r c now d]
    by blast
qed

theorem feedback_rejections_witness:
  "findById 1 ex_half = Some ex_half_swap
   \<and> own_rating 1 ex_half_swap = Some 5
   \<and> feedback_handler 1 1 3 None 6000 ex_half = (Inl AlreadyProvided, ex_half)"
proof -
  have f: "findById 1 ex_half = Some ex_half_swap"
    by (simp add: findById_def ex_half_eval ex_half_swap_def ex_completed_swap_def)
  show ?thesis
    using f feedback_rejections [OF f, of 1 3 None 6000]
    by (simp add: own_rating_def ex_half_swap_def ex_completed_swap_def feedback_handler_def
        valid_feedback_def Let_def)
qed

text \<open>
  C4. For a create-swap call by an authenticated user that names a different recipient
  with valid fields: the call is answered with the conflict error "a pending swap request
  already exists between these users" exactly when the store holds a request with status
  pending between the two users, in either direction; then nothing is written. A request
  between them in any other status does not stand in the way: in every other case the call
  succeeds and appends a new request from the caller to the recipient with status pending.
\<close>

theorem create_conflict_iff_pending:
  assumes "user \<noteq> cast_id toU" and "valid_swap_fields so sw m"
  shows "(fst (create_handler user toU so sw m now d) = Inl PendingExists \<longleftrightarrow>
           (\<exists>s \<in> set (swapRequests d). status s = Pending \<and>
              ((fromUserId s = user \<and> toUserId s = cast_id toU)
               \<or> (fromUserId s = cast_id toU \<and> toUserId s = user))))
       \<and> (fst (create_handler user toU so sw m now d) = Inl PendingExists \<longrightarrow>
            snd (create_handler user toU so sw m now d) = d)
       \<and> (fst (create_handler user toU so sw m now d) \<noteq> Inl PendingExists \<longrightarrow>
            (\<exists>s'. fst (create_handler user toU so sw m now d) = Inr s' \<and> status s' = Pending
               \<and> fromUserId s' = user \<and> toUserId s' = cast_id toU
               \<and> swapRequests (snd (create_handler user toU so sw m now d)) = swapRequests d @ [s']))"
proof (cases "find (pending_between user (cast_id toU)) (swapRequests d)")
  case None
  then have "\<not> (\<exists>s\<in>set (swapRequests d). pending_between user (cast_id toU) s)"
    by (simp add: find_None_iff)
  then show ?thesis using assms None
    by (auto simp: create_handler_def create_def Let_def pending_between_def notification_defs)
next
  case (Some x)
  then have "pending_between user (cast_id toU) x" "x \<in> set (swapRequests d)"
    by (auto simp: find_Some_iff)
  then show ?thesis using assms Some
    by (auto simp: create_handler_def pending_between_def)
qed

theorem create_conflict_iff_pending_witness:
  "(2::nat) \<noteq> cast_id \<lparr>cast_id = 1, lower_case = True\<rparr>
   \<and> valid_swap_fields ''Python'' ''JavaScript'' ''Swap back?''
   \<and> create_handler 2 \<lparr>cast_id = 1, lower_case = True\<rparr> ''Python'' ''JavaScript'' ''Swap back?''
         2000 ex_db = (Inl PendingExists, ex_db)
   \<and> fst (create_handler 2 \<lparr>cast_id = 1, lower_case = True\<rparr> ''Python'' ''JavaScript''
          ''Swap back?'' 2000 (ex_db\<lparr>swapRequests := [ex_swap\<lparr>status := Rejected\<rparr>]\<rparr>))
      = Inr \<lparr>sid = 11, fromUserId = 2, toUserId = 1, skillOffered = ''Python'',
              skillWanted = ''JavaScript'', message = ''Swap back?'', status = Pending,
              completedAt = None, feedback = no_feedback, createdAt = 2000, updatedAt = 2000\<rparr>"
proof -
  have v: "valid_swap_fields ''Python'' ''JavaScript'' ''Swap back?''"
    by (simp add: valid_swap_fields_def)
  have n: "(2::nat) \<noteq> cast_id \<lparr>cast_id = 1, lower_case = True\<rparr>" by simp
  show ?thesis
    using v create_conflict_iff_pending [OF n v, of 2000 ex_db]
    by (simp add: create_handler_def create_def pending_between_def Let_def new_id_def
        notification_defs ex_db_def ex_swap_def)
qed

text \<open>
  C5. In every store the handlers can reach, a swap request has a completion time exactly
  when its status is completed. The complete transition sets the status to completed and
  completedAt to the current time; accept, reject and cancel leave completedAt as it is,
  and a created request has none.
\<close>

theorem completedAt_iff_completed:
  "(reachable d \<and> s \<in> set (swapRequests d) \<longrightarrow> (completedAt s \<noteq> None \<longleftrightarrow> status s = Completed))
   \<and> status (complete now r) = Completed \<and> completedAt (complete now r) = Some now
   \<and> completedAt (accept r) = completedAt r
   \<and> completedAt (reject r) = completedAt r
   \<and> completedAt (cancel r) = completedAt r
   \<and> completedAt (fst (create user toU so sw m now d0)) = None"
proof -
  have "reachable d \<Longrightarrow> s \<in> set (swapRequests d) \<Longrightarrow> completedAt_ok s"
    using reachable_ok [of d] by (simp add: store_ok_def swap_ok_def list_all_iff)
  then show ?thesis
    by (auto simp: completedAt_ok_def complete_def accept_def reject_def cancel_def create_def Let_def)
qed

theorem completedAt_iff_completed_witness:
  "reachable ex_completed \<and> ex_completed_swap \<in> set (swapRequests ex_completed)
   \<and> completedAt ex_completed_swap = Some 3000 \<and> status ex_completed_swap = Completed"
  using completedAt_iff_completed [of ex_completed ex_completed_swap 0 ex_swap 0 0 "[]" "[]" "[]" ex_db]
    ex_completed_reachable
  by (simp add: ex_completed_swaps) (simp add: ex_completed_swap_def)

text \<open>
  C6 (as amended). A successful feedback submission with rating r replaces the
  counterparty's aggregate by (oldAvg * oldCount + r) / (oldCount + 1), computed in double
  arithmetic, and increments the review count by one. Starting from a user with rating 0
  and count 0, the ratings 5, 3 and 4 submitted in any order give rating 4 and count 3.
\<close>

theorem rating_aggregate:
  "(feedback_handler user i r c now d = (Inr s', d') \<longrightarrow>
      (\<exists>u. findUserById (counterparty user s') d = Some u
         \<and> findUserById (counterparty user s') d' =
             Some (u\<lparr>rating :=
                       double_div
                         (double_add (double_mult (rating u) (of_nat (reviewCount u))) (of_int r))
                         (of_nat (reviewCount u + 1)),
                     reviewCount := reviewCount u + 1\<rparr>)))
   \<and> (rating u0 = 0 \<and> reviewCount u0 = 0 \<and> mset rs = mset [5, 3, 4] \<longrightarrow>
        rating (fold updateRating rs u0) = 4 \<and> reviewCount (fold updateRating rs u0) = 3)"
proof -
  have a: "\<exists>u. findUserById (counterparty user s') d = Some u
         \<and> findUserById (counterparty user s') d' =
             Some (u\<lparr>rating :=
                       double_div
                         (double_add (double_mult (rating u) (of_nat (reviewCount u))) (of_int r))
                         (of_nat (reviewCount u + 1)),
                     reviewCount := reviewCount u + 1\<rparr>)"
    if h: "feedback_handler user i r c now d = (Inr s', d')"
  proof -
    from feedback_success [OF h] obtain s u where
      s': "s' = (addFeedback user r c s)\<lparr>updatedAt := now\<rparr>"
      and u: "findUserById (counterparty user s) d = Some u"
      and d': "d' = (if isFeedbackComplete s'
                    then createFeedbackReceivedNotification (counterparty user s) i now
                    else (\<lambda>x. x))
                   (saveUser (updateRating (of_int r) u) (save now (addFeedback user r c s) d))"
      by blast
    have "uid (updateRating (of_int r) u) = counterparty user s"
      using findUserById_uid [OF u] by simp
    then have "findUserById (counterparty user s) d' = Some (updateRating (of_int r) u)"
      using d' u findUserById_saveUser [of "counterparty user s" "save now (addFeedback user r c s) d" u]
      by (simp add: createFeedbackReceivedNotification_def)
    then show ?thesis using u s' by (simp add: updateRating_def new_average_def)
  qed
  have b: "rating (fold updateRating rs u0) = 4 \<and> reviewCount (fold updateRating rs u0) = 3"
    if h: "rating u0 = 0 \<and> reviewCount u0 = 0 \<and> mset rs = mset [5, 3, 4]"
  proof -
    have "size (mset rs) = size (mset [5, 3, 4::rat])" using h by simp
    then have l: "length rs = 3" by simp
    have n: "reviewCount (fold updateRating rs u0) = 3"
      using reviewCount_fold [of rs u0] h l by simp
    from h have "mset rs = mset [5, 3, 4]" by blast
    then have o: "rs \<in> {[5, 3, 4], [5, 4, 3], [3, 5, 4], [3, 4, 5], [4, 5, 3], [4, 3, 5]}"
      by (rule orders_of_5_3_4)
    from h have r0: "rating u0 = 0" and c0: "reviewCount u0 = 0" by blast+
    have t: "rating (fold updateRating [x, y, z] u0)
               = new_average (new_average (new_average 0 0 x) 1 y) 2 z" for x y z
      using r0 c0 by (rule three_ratings)
    have "rating (fold updateRating rs u0) = 4"
      using o unfolding insert_iff empty_iff
      by (elim disjE FalseE)
         (simp_all only: t new_average_0_0 new_average_0_1 new_average_0_2 new_average_1_3 new_average_1_4 new_average_1_5 new_average_1_6 new_average_1_7 new_average_1_8 new_average_2_9 new_average_2_10 new_average_2_11 new_average_2_12 new_average_2_13)
    then show ?thesis using n by simp
  qed
  show ?thesis using a b by blast
qed

theorem rating_aggregate_witness:
  "feedback_handler 2 1 4 None 5000 ex_half = (Inr ex_rated_swap, ex_rated)
   \<and> findUserById 1 ex_half = Some userA
   \<and> findUserById 1 ex_rated = Some (userA\<lparr>rating := 4, reviewCount := 1\<rparr>)
   \<and> rating userA = 0 \<and> reviewCount userA = 0
   \<and> rating (fold updateRating [3, 4, 5] userA) = 4
   \<and> reviewCount (fold updateRating [3, 4, 5] userA) = 3"
proof -
  have c: "feedback_handler 2 1 4 None 5000 ex_half = (Inr ex_rated_swap, ex_rated)"
    unfolding ex_rated_call ex_rated_eval by simp
  have m: "mset [3, 4, 5::rat] = mset [5, 3, 4]" by simp
  have u: "rating userA = 0 \<and> reviewCount userA = 0" by (simp add: userA_def)
  from rating_aggregate [of 2 1 4 None 5000 ex_half ex_rated_swap ex_rated userA "[3, 4, 5]"] u m
  have "rating (fold updateRating [3, 4, 5] userA) = 4
        \<and> reviewCount (fold updateRating [3, 4, 5] userA) = 3"
    by blast
  then show ?thesis
    using c u by (simp add: findUserById_def ex_half_eval ex_rated_eval userA_def userB_def)
qed

text \<open>
  C6 as stated fails beyond the example: the final mean is not independent of the
  submission order. The same eight ratings give 3.875 in one order and
  3.8750000000000004 in another.
\<close>

theorem rating_order_counterexample:
  "mset ex_ratings = mset ex_ratings_reordered
   \<and> rating userA = 0 \<and> reviewCount userA = 0
   \<and> rating (fold updateRating ex_ratings userA) = 31 / 8
   \<and> rating (fold updateRating ex_ratings_reordered userA)
       = 8725724278030337 / 2251799813685248
   \<and> rating (fold updateRating ex_ratings userA)
       \<noteq> rating (fold updateRating ex_ratings_reordered userA)"
proof -
  have "mset ex_ratings = mset ex_ratings_reordered"
    by (simp add: ex_ratings_def ex_ratings_reordered_def)
  then show ?thesis
    unfolding ex_ratings_final by (simp add: userA_def)
qed



text \<open>
  C8 (as amended). The admin ban operation fails, writing nothing, when the target user
  has the admin flag set, and also when the target is already banned. Banning a non-admin
  user who is not yet banned (with a valid request) succeeds and sets the banned flag:
  afterwards every user document with that id is banned, and the user listing and skill
  search filter, the skill-match query and the skill-match count no longer return that
  user.
\<close>

theorem ban_user:
  assumes "findUserById i d = Some u"
  shows "(isAdmin u \<or> isBanned u \<longrightarrow> (\<exists>e. ban_handler i reason d = (Inl e, d)))
       \<and> (isBanned u \<and> valid_reason reason \<longrightarrow> ban_handler i reason d = (Inl AlreadyBanned, d))
       \<and> (isAdmin u \<and> \<not> isBanned u \<and> valid_reason reason \<longrightarrow>
            ban_handler i reason d = (Inl CannotBanAdmin, d))
       \<and> (\<not> isAdmin u \<and> \<not> isBanned u \<and> valid_reason reason \<longrightarrow>
            fst (ban_handler i reason d) = Inr (u\<lparr>isBanned := True\<rparr>)
            \<and> findUserById i (snd (ban_handler i reason d)) = Some (u\<lparr>isBanned := True\<rparr>)
            \<and> (\<forall>v \<in> set (users (snd (ban_handler i reason d))). uid v = i \<longrightarrow> isBanned v)
            \<and> (\<forall>v \<in> set (list_users extra (snd (ban_handler i reason d))). uid v \<noteq> i)
            \<and> (\<forall>j. \<forall>v \<in> set (findSkillMatches j (snd (ban_handler i reason d))). uid v \<noteq> i)
            \<and> (\<forall>j U. \<forall>v \<in> set (filter (skill_match_filter j U)
                                      (users (snd (ban_handler i reason d)))). uid v \<noteq> i))"
proof -
  have ui: "uid u = i" using assms by (rule findUserById_uid)
  have b: "fst (ban_handler i reason d) = Inr (u\<lparr>isBanned := True\<rparr>)
            \<and> snd (ban_handler i reason d) = saveUser (u\<lparr>isBanned := True\<rparr>) d"
    if "\<not> isAdmin u \<and> \<not> isBanned u \<and> valid_reason reason"
    using that assms by (auto simp: ban_handler_def valid_reason_def Let_def split: option.splits)
  have all: "\<forall>v \<in> set (users (saveUser (u\<lparr>isBanned := True\<rparr>) d)). uid v = i \<longrightarrow> isBanned v"
    using users_saveUser_banned [of _ u d] ui by auto
  have f: "findUserById i (saveUser (u\<lparr>isBanned := True\<rparr>) d) = Some (u\<lparr>isBanned := True\<rparr>)"
    using findUserById_saveUser [OF assms, of "u\<lparr>isBanned := True\<rparr>"] ui by simp
  have l: "\<forall>v \<in> set (list_users extra (saveUser (u\<lparr>isBanned := True\<rparr>) d)). uid v \<noteq> i"
    using all by (auto simp: list_users_def)
  have m: "\<forall>j. \<forall>v \<in> set (findSkillMatches j (saveUser (u\<lparr>isBanned := True\<rparr>) d)). uid v \<noteq> i"
    using all findSkillMatches_visible by blast
  have c: "\<forall>j U. \<forall>v \<in> set (filter (skill_match_filter j U)
                     (users (saveUser (u\<lparr>isBanned := True\<rparr>) d))). uid v \<noteq> i"
    using all by (auto simp: skill_match_filter_def)
  have r: "isAdmin u \<or> isBanned u \<longrightarrow> (\<exists>e. ban_handler i reason d = (Inl e, d))"
    using ban_refused [OF assms, of reason] by blast
  have r1: "isBanned u \<and> valid_reason reason \<longrightarrow> ban_handler i reason d = (Inl AlreadyBanned, d)"
    using ban_refused_reason(1) [OF assms] by blast
  have r2: "isAdmin u \<and> \<not> isBanned u \<and> valid_reason reason \<longrightarrow>
            ban_handler i reason d = (Inl CannotBanAdmin, d)"
    using ban_refused_reason(2) [OF assms] by blast
  have s: "\<not> isAdmin u \<and> \<not> isBanned u \<and> valid_reason reason \<longrightarrow>
            fst (ban_handler i reason d) = Inr (u\<lparr>isBanned := True\<rparr>)
            \<and> findUserById i (snd (ban_handler i reason d)) = Some (u\<lparr>isBanned := True\<rparr>)
            \<and> (\<forall>v \<in> set (users (snd (ban_handler i reason d))). uid v = i \<longrightarrow> isBanned v)
            \<and> (\<forall>v \<in> set (list_users extra (snd (ban_handler i reason d))). uid v \<noteq> i)
            \<and> (\<forall>j. \<forall>v \<in> set (findSkillMatches j (snd (ban_handler i reason d))). uid v \<noteq> i)
            \<and> (\<forall>j U. \<forall>v \<in> set (filter (skill_match_filter j U)
                                      (users (snd (ban_handler i reason d)))). uid v \<noteq> i)"
  proof
    assume h: "\<not> isAdmin u \<and> \<not> isBanned u \<and> valid_reason reason"
    from b [OF h] have fs: "fst (ban_handler i reason d) = Inr (u\<lparr>isBanned := True\<rparr>)"
      and sn: "snd (ban_handler i reason d) = saveUser (u\<lparr>isBanned := True\<rparr>) d"
      by simp_all
    show "fst (ban_handler i reason d) = Inr (u\<lparr>isBanned := True\<rparr>)
            \<and> findUserById i (snd (ban_handler i reason d)) = Some (u\<lparr>isBanned := True\<rparr>)
            \<and> (\<forall>v \<in> set (users (snd (ban_handler i reason d))). uid v = i \<longrightarrow> isBanned v)
            \<and> (\<forall>v \<in> set (list_users extra (snd (ban_handler i reason d))). uid v \<noteq> i)
            \<and> (\<forall>j. \<forall>v \<in> set (findSkillMatches j (snd (ban_handler i reason d))). uid v \<noteq> i)
            \<and> (\<forall>j U. \<forall>v \<in> set (filter (skill_match_filter j U)
                                      (users (snd (ban_handler i reason d)))). uid v \<noteq> i)"
      unfolding sn by (intro conjI) (fact fs f all l m c)+
  qed
  show ?thesis using r r1 r2 s by (intro conjI)
qed

theorem ban_user_witness:
  "findUserById 2 ex_init = Some userB \<and> \<not> isAdmin userB \<and> \<not> isBanned userB
   \<and> valid_reason (Some ''spam'')
   \<and> ban_handler 2 (Some ''spam'') ex_init = (Inr (userB\<lparr>isBanned := True\<rparr>), ex_banned)
   \<and> list_users (\<lambda>u. True) ex_banned = [userA]
   \<and> findSkillMatches 1 ex_banned = []
   \<and> findUserById 2 ex_banned = Some (userB\<lparr>isBanned := True\<rparr>)
   \<and> ban_handler 2 (Some ''spam'') ex_banned = (Inl AlreadyBanned, ex_banned)
   \<and> findUserById 1 ex_staff = Some (userA\<lparr>isAdmin := True\<rparr>)
   \<and> ban_handler 1 None ex_staff = (Inl CannotBanAdmin, ex_staff)"
proof -
  have f: "findUserById 2 ex_init = Some userB"
    by (simp add: findUserById_def ex_init_def userA_def userB_def)
  have p: "\<not> isAdmin userB \<and> \<not> isBanned userB \<and> valid_reason (Some ''spam'')"
    by (simp add: userB_def valid_reason_def)
  have g: "findUserById 1 ex_staff = Some (userA\<lparr>isAdmin := True\<rparr>)"
    by (simp add: findUserById_def ex_staff_def ex_init_def userA_def)
  have k: "findUserById 2 ex_banned = Some (userB\<lparr>isBanned := True\<rparr>)"
    by (simp add: findUserById_def ex_banned_def ex_init_def userA_def userB_def)
  from ban_user [OF f, of "Some ''spam''" "\<lambda>u. True"] p
  have "fst (ban_handler 2 (Some ''spam'') ex_init) = Inr (userB\<lparr>isBanned := True\<rparr>)"
    by blast
  moreover from ban_user [OF k, of "Some ''spam''" "\<lambda>u. True"] p
  have "ban_handler 2 (Some ''spam'') ex_banned = (Inl AlreadyBanned, ex_banned)"
    by simp
  ultimately show ?thesis
    using f p g k ex_ban_call ex_staff_call ex_banned_listing by blast
qed

text \<open>
  C8 as stated fails twice. Banning a non-admin user who is already banned does not
  succeed: the handler answers 400 "User is already banned". And after a successful ban
  the visibility check of GET /api/users/:id, which reads isPublic only, still serves the
  banned user's profile to an anonymous caller.
\<close>

theorem ban_nonadmin_counterexample:
  "findUserById 2 ex_banned = Some (userB\<lparr>isBanned := True\<rparr>)
   \<and> \<not> isAdmin (userB\<lparr>isBanned := True\<rparr>)
   \<and> ban_handler 2 None ex_banned = (Inl AlreadyBanned, ex_banned)
   \<and> ban_handler 2 (Some ''spam'') ex_init = (Inr (userB\<lparr>isBanned := True\<rparr>), ex_banned)
   \<and> get_user_handler None 2 ex_banned = Inr (userB\<lparr>isBanned := True\<rparr>)"
  using ex_ban_call ex_banned_profile
  by (simp add: ban_handler_def valid_reason_def findUserById_def ex_banned_def ex_init_def
      userA_def userB_def)

text \<open>
  C9 (as amended). For every AdminMessage and every evaluation time, shouldShow is true
  if and only if the message is active and either has no expiry timestamp or its expiry is
  not earlier than the evaluation time. Whenever the expiry is not exactly the evaluation
  time this is the specification's "active and (no expiry or expiry in the future)".
\<close>

theorem shouldShow_iff:
  "(shouldShow now m \<longleftrightarrow>
      isActive m \<and> (expiresAt m = None \<or> (\<exists>e. expiresAt m = Some e \<and> now \<le> e)))
   \<and> (expiresAt m \<noteq> Some now \<longrightarrow> shouldShow now m = visible_spec now m)"
  by (auto simp: shouldShow_def isExpired_def visible_spec_def split: option.splits)

theorem shouldShow_iff_witness:
  "shouldShow 100 ex_message \<and> shouldShow 99 ex_message \<and> \<not> shouldShow 101 ex_message
   \<and> expiresAt ex_message \<noteq> Some 99 \<and> visible_spec 99 ex_message"
  using shouldShow_iff [of 100 ex_message] shouldShow_iff [of 99 ex_message]
    shouldShow_iff [of 101 ex_message]
  by (simp add: ex_message_def visible_spec_def)

text \<open>
  C9 as stated fails at the instant of expiry: an active message that expires at 100 is
  still shown at time 100, although its expiry is not in the future then.
\<close>

theorem shouldShow_future_counterexample:
  "shouldShow 100 ex_message \<and> \<not> visible_spec 100 ex_message"
  by (simp add: shouldShow_def isExpired_def visible_spec_def ex_message_def)

text \<open>
  C10. For every user id, getActiveMessagesForUser returns every active message that has
  no expiry or expires after the query time, whether or not the message is global or
  lists that user in targetUsers: the literal spells $or twice, the expiry condition
  replaces the global-or-targeted one, and the result does not depend on the user id.
\<close>

theorem user_messages_ignore_target:
  "mset (getActiveMessagesForUser now u ms) =
     mset (filter (\<lambda>m. isActive m \<and> (expiresAt m = None \<or> (\<exists>e. expiresAt m = Some e \<and> now < e))) ms)
   \<and> getActiveMessagesForUser now u ms = getActiveMessagesForUser now u' ms"
proof -
  have "find_messages [(''isActive'', Field (Eq_isActive True)),
      (''$or'', Or [Eq_expiresAt_null, Gt_expiresAt now])] ms
     = filter (\<lambda>m. isActive m \<and> (expiresAt m = None \<or> (\<exists>e. expiresAt m = Some e \<and> now < e))) ms"
    by (auto simp: find_messages_def intro!: filter_cong split: option.splits)
  then show ?thesis
    by (simp add: getActiveMessagesForUser_def user_query_literal sort_createdAt_desc_def)
qed

theorem user_messages_ignore_target_witness:
  "getActiveMessagesForUser 80 1 ex_messages
     = [ex_message\<lparr>expiresAt := None, targetUsers := [], createdAt_m := 70\<rparr>, ex_message]"
  using user_messages_ignore_target [of 80 1 ex_messages 2]
  by (simp add: getActiveMessagesForUser_def user_query_literal sort_createdAt_desc_def
      find_messages_def ex_messages_def ex_message_def)


end
